theory Spec2Isabelle
  imports Complex_Main
begin

section \<open>Common values\<close>

text \<open>
  Python floats are modelled as real numbers: comparisons, \<open>min\<close>, \<open>max\<close>, the four
  arithmetic operations and \<open>math.ceil\<close> are the exact ones, so rounding, overflow to
  infinity and NaN are outside the model. Python ints are \<open>int\<close>. Exceptions are values of
  the type \<open>py_error\<close>; a function that can raise returns \<open>py_error + 'a\<close>.
\<close>

datatype py_error =
    ConfigError string
  | ZeroDivisionError
  | AttributeError

text \<open>The enumeration \<open>TuningGoal(str, Enum)\<close> of \<open>autotune_tmc.py\<close>.\<close>

datatype TuningGoal = AUTO | AUTOSWITCH | SILENT | PERFORMANCE

text \<open>
  \<open>str.lower()\<close> on the ASCII letters; every other character is kept. (A character
  outside ASCII never lowers to an ASCII letter that occurs in a goal name, so the
  lookup below is not affected by what Python does to it.)
\<close>

definition lower_char :: "char \<Rightarrow> char" where
  "lower_char c =
     (case map_of (zip ''ABCDEFGHIJKLMNOPQRSTUVWXYZ'' ''abcdefghijklmnopqrstuvwxyz'') c of
        None \<Rightarrow> c
      | Some d \<Rightarrow> d)"

definition lower :: "string \<Rightarrow> string" where
  "lower s = map lower_char s"

text \<open>
  \<open>TuningGoal(tgoal)\<close>: lookup of a member by its value; \<open>None\<close> is the
  \<open>ValueError\<close> of the source, which both callers catch at once.
\<close>

definition TuningGoal_of :: "string \<Rightarrow> TuningGoal option" where
  "TuningGoal_of s =
     (if s = ''auto'' then Some AUTO
      else if s = ''autoswitch'' then Some AUTOSWITCH
      else if s = ''silent'' then Some SILENT
      else if s = ''performance'' then Some PERFORMANCE
      else None)"

text \<open>Module constants of \<open>autotune_tmc.py\<close>.\<close>

definition TUNING_GOAL :: string where
  "TUNING_GOAL = ''auto''"

definition AUTO_PERFORMANCE_MOTORS :: "string set" where
  "AUTO_PERFORMANCE_MOTORS =
     {''stepper_x'', ''stepper_y'', ''stepper_x1'', ''stepper_y1'',
      ''stepper_a'', ''stepper_b'', ''stepper_c''}"

section \<open>The motor model (\<open>motor_constants.py\<close>)\<close>

text \<open>
  The numeric attributes that \<open>MotorConstants.__init__\<close> assigns (the object also
  keeps the printer and its own name, which no formula reads).
\<close>

record MotorConstants =
  R :: real
  L :: real
  T :: real
  S :: int
  I :: real
  cbemf :: real

text \<open>
  A configuration section: the options that are present, each with the number its text
  denotes. \<open>IntText\<close> is text that \<open>int()\<close> accepts (and so \<open>float()\<close> too),
  \<open>FloatText\<close> is text that only \<open>float()\<close> accepts.
\<close>

datatype cfg_value = IntText int | FloatText real

type_synonym config = "string \<rightharpoonup> cfg_value"

text \<open>
  Modelled from the spec: the host's typed config accessor (\<open>config.getfloat\<close>,
  \<open>config.getint\<close>), which is not part of this repository. Section 6 of the spec: it
  "raises a configuration error identifying the field and its valid range on violation".
  The calls in the source give no default and only \<open>minval\<close>; the bound is inclusive, a
  value equal to \<open>minval\<close> is accepted.
\<close>

definition getfloat :: "config \<Rightarrow> string \<Rightarrow> real \<Rightarrow> py_error + real" where
  "getfloat cfg opt minval =
     (case cfg opt of
        None \<Rightarrow> Inl (ConfigError (''Option '' @ opt @ '' must be specified''))
      | Some c \<Rightarrow>
          (let v = (case c of IntText i \<Rightarrow> real_of_int i | FloatText x \<Rightarrow> x)
           in if v < minval
              then Inl (ConfigError (''Option '' @ opt @ '' is below its minimum''))
              else Inr v))"

definition getint :: "config \<Rightarrow> string \<Rightarrow> int \<Rightarrow> py_error + int" where
  "getint cfg opt minval =
     (case cfg opt of
        None \<Rightarrow> Inl (ConfigError (''Option '' @ opt @ '' must be specified''))
      | Some (FloatText x) \<Rightarrow> Inl (ConfigError (''Unable to parse option '' @ opt))
      | Some (IntText i) \<Rightarrow>
          (if i < minval
           then Inl (ConfigError (''Option '' @ opt @ '' is below its minimum''))
           else Inr i))"

text \<open>
  \<open>MotorConstants.__init__\<close>: the five options are read in the order of the source,
  each with \<open>minval=0\<close>; then \<open>cbemf = T / (2.0 * I)\<close> is computed, and a float
  division by zero raises \<open>ZeroDivisionError\<close>.
\<close>

definition MotorConstants_init :: "config \<Rightarrow> py_error + MotorConstants" where
  "MotorConstants_init cfg =
     (case getfloat cfg ''resistance'' 0 of Inl e \<Rightarrow> Inl e | Inr r \<Rightarrow>
      case getfloat cfg ''inductance'' 0 of Inl e \<Rightarrow> Inl e | Inr l \<Rightarrow>
      case getfloat cfg ''holding_torque'' 0 of Inl e \<Rightarrow> Inl e | Inr t \<Rightarrow>
      case getint cfg ''steps_per_revolution'' 0 of Inl e \<Rightarrow> Inl e | Inr s \<Rightarrow>
      case getfloat cfg ''max_current'' 0 of Inl e \<Rightarrow> Inl e | Inr i \<Rightarrow>
        if 2 * i = 0 then Inl ZeroDivisionError
        else Inr \<lparr>R = r, L = l, T = t, S = s, I = i, cbemf = t / (2 * i)\<rparr>)"

text \<open>
  \<open>MotorConstants.pwmgrad(fclk=20e3, steps=0, volts=24.0)\<close>. The defaults of the
  signature are arguments here; \<open>volts_default\<close> is the default of \<open>volts\<close>.
\<close>

definition volts_default :: real where
  "volts_default = 24"

definition pwmgrad :: "MotorConstants \<Rightarrow> real \<Rightarrow> int \<Rightarrow> real \<Rightarrow> py_error + int" where
  "pwmgrad self fclk steps volts =
     (let steps1 = (if steps = 0 then S self else steps)
      in if volts * 256 * real_of_int steps1 = 0 then Inl ZeroDivisionError
         else Inr \<lceil>cbemf self * 2 * pi * fclk * 1.46 / (volts * 256 * real_of_int steps1)\<rceil>)"

text \<open>\<open>MotorConstants.pwmofs(volts=24.0, current=0.0)\<close>.\<close>

definition pwmofs :: "MotorConstants \<Rightarrow> real \<Rightarrow> real \<Rightarrow> py_error + int" where
  "pwmofs self volts current =
     (let i = (if current > 0 then current else I self * 0.8)
      in if volts = 0 then Inl ZeroDivisionError
         else Inr \<lceil>374 * R self * i / volts\<rceil>)"

text \<open>
  \<open>MotorConstants.maxpwmrps(fclk=20e3, steps=0, volts=24.0, current=0.0)\<close>. The source
  calls \<open>self.pwmofs(volts, current)\<close> and \<open>self.pwmgrad(fclk, steps)\<close>: the second
  call passes no \<open>volts\<close>, so \<open>pwmgrad\<close> runs with its default.
\<close>

definition maxpwmrps ::
  "MotorConstants \<Rightarrow> real \<Rightarrow> int \<Rightarrow> real \<Rightarrow> real \<Rightarrow> py_error + real" where
  "maxpwmrps self fclk steps volts current =
     (let steps1 = (if steps = 0 then S self else steps)
      in case pwmofs self volts current of Inl e \<Rightarrow> Inl e | Inr ofs \<Rightarrow>
         case pwmgrad self fclk steps1 volts_default of Inl e \<Rightarrow> Inl e | Inr grad \<Rightarrow>
           if pi * real_of_int grad = 0 then Inl ZeroDivisionError
           else Inr (real_of_int (255 - ofs) / (pi * real_of_int grad)))"

text \<open>
  \<open>MotorConstants.hysteresis(extra=0, fclk=20e3, volts=24.0, current=0.0, tbl=1, toff=0)\<close>.
  \<open>hysteresis_locals\<close> computes the four integers that the source logs just before it
  returns: \<open>hysteresis\<close>, \<open>htotal\<close>, \<open>hstrt\<close> and \<open>hend\<close>. The divisions by
  \<open>fclk\<close>, \<open>self.L\<close> and \<open>I\<close> raise when the divisor is zero, in that order.
\<close>

definition hysteresis_locals ::
  "MotorConstants \<Rightarrow> int \<Rightarrow> real \<Rightarrow> real \<Rightarrow> real \<Rightarrow> int \<Rightarrow> int
     \<Rightarrow> py_error + (int \<times> int \<times> int \<times> int)" where
  "hysteresis_locals self extra fclk volts current tbl toff =
     (let i = (if current > 0 then current else I self * 0.8)
      in if fclk = 0 then Inl ZeroDivisionError
         else
           (let tblank = 16 * ((3 / 2) powi tbl) / fclk;
                tsd = (12 + 32 * real_of_int toff) / fclk
            in if L self = 0 then Inl ZeroDivisionError
               else
                 (let dcoilblank = volts * tblank / L self;
                      dcoilsd = R self * i * 2 * tsd / L self
                  in if i = 0 then Inl ZeroDivisionError
                     else
                       (let hysteresis =
                              extra + \<lceil>max (0.5 + ((dcoilblank + dcoilsd) * 2 * 248 * 32 / i) / 32 - 8) (- 2)\<rceil>;
                            htotal = min hysteresis 14;
                            hstrt = max (min htotal 8) 1;
                            hend = min (htotal - hstrt) 12
                        in Inr (hysteresis, htotal, hstrt, hend)))))"

definition hysteresis ::
  "MotorConstants \<Rightarrow> int \<Rightarrow> real \<Rightarrow> real \<Rightarrow> real \<Rightarrow> int \<Rightarrow> int \<Rightarrow> py_error + (int \<times> int)" where
  "hysteresis self extra fclk volts current tbl toff =
     (case hysteresis_locals self extra fclk volts current tbl toff of
        Inl e \<Rightarrow> Inl e
      | Inr (hysteresis, htotal, hstrt, hend) \<Rightarrow> Inr (hstrt - 1, hend + 3))"

section \<open>The tuning engine (\<open>autotune_tmc.py\<close>)\<close>

text \<open>
  What \<open>printer.lookup_object\<close> can return: a motor of the database, or another object
  (the driver), whose attributes no method below reads.
\<close>

datatype printer_object = MotorObject MotorConstants | DriverObject

text \<open>
  The attributes of an \<open>AutotuneTMC\<close> object that the methods below read or write.
\<close>

record AutotuneTMC =
  name :: string
  driver_name :: string
  motor_name :: string
  tuning_goal :: TuningGoal
  auto_silent :: bool
  extra_hysteresis :: int
  pwm_freq_target :: real
  motor_object :: "printer_object option"

text \<open>
  Modelled from the spec: the host's lookup of an object by name
  (\<open>printer.lookup_object\<close>), which is not part of this repository. Section 6 of the
  spec: the lookup is read-only and keyed by name. It raises when no object has the name.
\<close>

type_synonym printer = "string \<rightharpoonup> printer_object"

definition lookup_object :: "printer \<Rightarrow> string \<Rightarrow> py_error + printer_object" where
  "lookup_object p n =
     (case p n of
        None \<Rightarrow> Inl (ConfigError (''Unknown config object '' @ n))
      | Some ob \<Rightarrow> Inr ob)"

text \<open>
  The attribute read \<open>motor.T\<close>: an object that is no motor has no such attribute.
\<close>

definition attr_T :: "printer_object \<Rightarrow> py_error + real" where
  "attr_T ob = (case ob of MotorObject m \<Rightarrow> Inr (T m) | DriverObject \<Rightarrow> Inl AttributeError)"

text \<open>
  \<open>handle_connect\<close>. The driver lookup comes first and is not guarded; a failed motor
  lookup is turned into the configuration error of the source. Under \<open>AUTO\<close> the
  conjunction \<open>self.name not in AUTO_PERFORMANCE_MOTORS and motor.T > 0.3\<close> reads
  \<open>motor.T\<close> only when its first operand holds. The second lookup of the motor, for
  \<open>self.motor_object\<close>, returns what the first one returned. The attributes
  \<open>tmc_object\<close> and \<open>tmc_cmdhelper\<close> are stored and not read again by any method
  modelled here. A float \<open>T\<close> exceeds the float written \<open>0.3\<close> exactly when it
  exceeds the real number 0.3, since no float lies between the two.
\<close>

definition handle_connect :: "printer \<Rightarrow> AutotuneTMC \<Rightarrow> py_error + AutotuneTMC" where
  "handle_connect p self =
     (case lookup_object p (driver_name self) of
        Inl e \<Rightarrow> Inl e
      | Inr _ \<Rightarrow>
         (case lookup_object p (motor_name self) of
            Inl _ \<Rightarrow> Inl (ConfigError (''Could not find motor definition '' @ motor_name self))
          | Inr motor \<Rightarrow>
              (if tuning_goal self = AUTO then
                 (case (if name self \<notin> AUTO_PERFORMANCE_MOTORS
                        then (case attr_T motor of Inl e \<Rightarrow> Inl e | Inr t \<Rightarrow> Inr (t > 0.3))
                        else Inr False) of
                    Inl e \<Rightarrow> Inl e
                  | Inr a \<Rightarrow>
                      Inr (self\<lparr>auto_silent := a,
                                tuning_goal := (if a then SILENT else PERFORMANCE),
                                motor_object := Some motor\<rparr>))
               else Inr (self\<lparr>motor_object := Some motor\<rparr>))))"

subsection \<open>The tuning procedure\<close>

text \<open>
  \<open>_set_driver_field(field, value)\<close> is a placeholder in the source: it changes no
  attribute. The sequence of its calls is what the procedure applies, so the model
  carries that sequence beside the object, and each call appends to it.
\<close>

datatype field_value = BoolV bool | IntV int | FloatV real

type_synonym sink = "(string \<times> field_value) list"

definition set_driver_field ::
  "string \<Rightarrow> field_value \<Rightarrow> AutotuneTMC \<times> sink \<Rightarrow> AutotuneTMC \<times> sink" where
  "set_driver_field field v st = (fst st, snd st @ [(field, v)])"

definition set_stealthchop_mode ::
  "TuningGoal \<Rightarrow> AutotuneTMC \<times> sink \<Rightarrow> AutotuneTMC \<times> sink" where
  "set_stealthchop_mode goal st =
     (if goal = SILENT then
        set_driver_field ''en_spreadcycle'' (BoolV False)
          (set_driver_field ''en_pwm_mode'' (BoolV True) st)
      else
        set_driver_field ''en_spreadcycle'' (BoolV True)
          (set_driver_field ''en_pwm_mode'' (BoolV False) st))"

definition adjust_pwm_freq :: "AutotuneTMC \<times> sink \<Rightarrow> AutotuneTMC \<times> sink" where
  "adjust_pwm_freq st =
     (let pwm_freq =
        (if tuning_goal (fst st) = SILENT
         then max 15000 (min (pwm_freq_target (fst st)) 20000)
         else pwm_freq_target (fst st))
      in set_driver_field ''pwm_freq'' (FloatV pwm_freq) st)"

definition smooth_acceleration :: "AutotuneTMC \<times> sink \<Rightarrow> AutotuneTMC \<times> sink" where
  "smooth_acceleration st =
     set_driver_field ''sedn'' (IntV 2)
       (set_driver_field ''seup'' (IntV 4)
         (set_driver_field ''semin'' (IntV 1)
           (set_driver_field ''semax'' (IntV 3) st)))"

text \<open>\<open>tune_driver\<close>: two branches, one per terminal goal, and no \<open>else\<close>.\<close>

definition tune_driver :: "AutotuneTMC \<times> sink \<Rightarrow> AutotuneTMC \<times> sink" where
  "tune_driver st =
     (if tuning_goal (fst st) = SILENT then
        smooth_acceleration (adjust_pwm_freq (set_stealthchop_mode (tuning_goal (fst st)) st))
      else if tuning_goal (fst st) = PERFORMANCE then
        smooth_acceleration (adjust_pwm_freq (set_stealthchop_mode (tuning_goal (fst st)) st))
      else st)"

subsection \<open>The command \<open>AUTOTUNE_TMC\<close>\<close>

text \<open>
  The parameters of one command line: \<open>TUNING_GOAL\<close> as the string given, if any, and
  \<open>EXTRA_HYSTERESIS\<close> as the integer \<open>gcmd.get_int\<close> has parsed, if any.
\<close>

record gcmd =
  TUNING_GOAL_param :: "string option"
  EXTRA_HYSTERESIS_param :: "int option"

text \<open>
  \<open>cmd_AUTOTUNE_TMC\<close>. \<open>gcmd.get('TUNING_GOAL', TUNING_GOAL)\<close> yields the default
  string when the parameter is absent, so the test \<open>tgoal is not None\<close> of the source
  always succeeds. The range test of the override is the one written in the source,
  \<open>extra_hysteresis >= 0 or extra_hysteresis <= 8\<close>.
\<close>

definition cmd_AUTOTUNE_TMC :: "gcmd \<Rightarrow> AutotuneTMC \<times> sink \<Rightarrow> AutotuneTMC \<times> sink" where
  "cmd_AUTOTUNE_TMC g st =
     (let self = fst st;
          tgoal = lower (case TUNING_GOAL_param g of None \<Rightarrow> TUNING_GOAL | Some s \<Rightarrow> s);
          self1 = (case TuningGoal_of tgoal of
                     Some goal \<Rightarrow> self\<lparr>tuning_goal := goal\<rparr>
                   | None \<Rightarrow> self);
          self2 = (if tuning_goal self1 = AUTO
                   then self1\<lparr>tuning_goal := (if auto_silent self1 then SILENT else PERFORMANCE)\<rparr>
                   else self1);
          self3 = (case EXTRA_HYSTERESIS_param g of
                     None \<Rightarrow> self2
                   | Some e \<Rightarrow>
                       (if e \<ge> 0 \<or> e \<le> 8 then self2\<lparr>extra_hysteresis := e\<rparr> else self2))
      in tune_driver (self3, snd st))"

text \<open>
  The attribute reads \<open>self.S\<close> and \<open>self.cbemf\<close> on an \<open>AutotuneTMC\<close> object.
  Neither \<open>__init__\<close> nor any other method of the class assigns an attribute of
  either name, and the class defines none; the motor's values are reachable only
  through \<open>self.motor_object\<close>. So each of the two reads raises \<open>AttributeError\<close>.
\<close>

definition AutotuneTMC_attr_S :: "AutotuneTMC \<Rightarrow> py_error + int" where
  "AutotuneTMC_attr_S self = Inl AttributeError"

definition AutotuneTMC_attr_cbemf :: "AutotuneTMC \<Rightarrow> py_error + real" where
  "AutotuneTMC_attr_cbemf self = Inl AttributeError"

text \<open>
  \<open>AutotuneTMC.pwmgrad(fclk=20e3, steps=0, volts=24.0)\<close>, statement by statement:
  the default of \<open>steps\<close> from \<open>self.S\<close>, the constant \<open>smooth_factor = 1.3\<close>,
  then the quotient, whose numerator starts with \<open>self.cbemf\<close> and is evaluated
  before the divisor.
\<close>

definition AutotuneTMC_pwmgrad :: "AutotuneTMC \<Rightarrow> real \<Rightarrow> int \<Rightarrow> real \<Rightarrow> py_error + int" where
  "AutotuneTMC_pwmgrad self fclk steps volts =
     (case (if steps = 0 then AutotuneTMC_attr_S self else Inr steps) of
        Inl e \<Rightarrow> Inl e
      | Inr steps1 \<Rightarrow>
          (let smooth_factor = 1.3
           in case AutotuneTMC_attr_cbemf self of
                Inl e \<Rightarrow> Inl e
              | Inr cb \<Rightarrow>
                  if volts * 256 * real_of_int steps1 = 0 then Inl ZeroDivisionError
                  else Inr \<lceil>cb * 2 * pi * fclk * smooth_factor
                              / (volts * 256 * real_of_int steps1)\<rceil>))"

section \<open>Observations and the formula of the specification\<close>

text \<open>The values applied to one field, in the order of the calls.\<close>

definition applied_values :: "string \<Rightarrow> sink \<Rightarrow> field_value list" where
  "applied_values field snk = map snd (filter (\<lambda>fv. fst fv = field) snk)"

text \<open>
  The PWM gradient as the specification words it (section 4.1):
  \<open>ceil(cbemf * 2 * pi * fclk * smoothFactor / (volts * 256 * steps))\<close>, where
  \<open>steps\<close> defaults to \<open>S\<close> if unset. The smoothing constant is a parameter.
\<close>

definition pwmGradient_spec :: "real \<Rightarrow> real \<Rightarrow> int \<Rightarrow> real \<Rightarrow> int \<Rightarrow> real \<Rightarrow> int" where
  "pwmGradient_spec smoothFactor cbemf0 S0 fclk steps volts =
     \<lceil>cbemf0 * (2 * pi) * fclk * smoothFactor
        / (volts * 256 * real_of_int (if steps = 0 then S0 else steps))\<rceil>"

section \<open>Example data\<close>

text \<open>
  The motor of the specification's test (2 ohm, 3 mH, 0.5 N m, 1.5 A, 200 steps), a
  printer that knows it, an engine object for the axis \<open>stepper_z\<close>, and a motor
  section whose rated current is zero.
\<close>

definition example_motor :: MotorConstants where
  "example_motor = \<lparr>R = 2, L = 0.003, T = 0.5, S = 200, I = 1.5, cbemf = 0.5 / (2 * 1.5)\<rparr>"

definition example_printer :: printer where
  "example_printer =
     [''tmc2209 stepper_z'' \<mapsto> DriverObject,
      ''motor_constants example'' \<mapsto> MotorObject example_motor]"

definition example_self :: AutotuneTMC where
  "example_self =
     \<lparr>name = ''stepper_z'', driver_name = ''tmc2209 stepper_z'',
      motor_name = ''motor_constants example'', tuning_goal = AUTO, auto_silent = False,
      extra_hysteresis = 3, pwm_freq_target = 55000, motor_object = None\<rparr>"

definition zero_current_config :: config where
  "zero_current_config =
     [''resistance'' \<mapsto> FloatText 2, ''inductance'' \<mapsto> FloatText 0.003,
      ''holding_torque'' \<mapsto> FloatText 0.5, ''steps_per_revolution'' \<mapsto> IntText 200,
      ''max_current'' \<mapsto> FloatText 0]"

section \<open>Bounds on pi\<close>

text \<open>
  The ceilings below have \<open>pi\<close> inside, so concrete values need an enclosure of
  \<open>pi\<close>. It comes from Machin's formula and the first terms of the arctangent series.
\<close>

lemma arctan_term_tendsto:
  fixes x :: real
  assumes "0 \<le> x" "x < 1"
  shows "(\<lambda>k. 1 / real (k * 2 + 1) * x ^ (k * 2 + 1)) \<longlonglongrightarrow> 0"
proof -
  have p: "(\<lambda>k. x ^ k) \<longlonglongrightarrow> 0"
    using assms by (intro LIMSEQ_realpow_zero) auto
  have "strict_mono (\<lambda>k::nat. k * 2 + 1)"
    by (simp add: strict_mono_def)
  then have q: "(\<lambda>k. x ^ (k * 2 + 1)) \<longlonglongrightarrow> 0"
    using LIMSEQ_subseq_LIMSEQ [OF p, of "\<lambda>k. k * 2 + 1"] by (simp add: o_def)
  have b: "norm (1 / real (k * 2 + 1) * x ^ (k * 2 + 1)) \<le> norm (x ^ (k * 2 + 1))" for k
  proof -
    have "1 / real (k * 2 + 1) \<le> 1" by simp
    moreover have "0 \<le> x ^ (k * 2 + 1)" using assms by simp
    ultimately have "1 / real (k * 2 + 1) * x ^ (k * 2 + 1) \<le> 1 * x ^ (k * 2 + 1)"
      by (intro mult_right_mono) auto
    then show ?thesis using assms by simp
  qed
  have lo: "0 \<le> 1 / real (k * 2 + 1) * x ^ (k * 2 + 1)" for k
    using assms by simp
  have hi: "1 / real (k * 2 + 1) * x ^ (k * 2 + 1) \<le> x ^ (k * 2 + 1)" for k
    using b [of k] assms by simp
  show ?thesis
    by (rule tendsto_sandwich [OF _ _ tendsto_const q]) (use lo hi in auto)
qed

lemma arctan_enclosure:
  fixes x :: real
  assumes "0 \<le> x" "x < 1"
  shows "x - x ^ 3 / 3 \<le> arctan x" and "arctan x \<le> x - x ^ 3 / 3 + x ^ 5 / 5"
proof -
  define a where "a k = 1 / real (k * 2 + 1) * x ^ (k * 2 + 1)" for k
  have z: "a \<longlonglongrightarrow> 0"
    unfolding a_def using arctan_term_tendsto [OF assms] .
  have nn: "0 \<le> a n" for n
    using assms by (simp add: a_def)
  have dec: "a (Suc n) \<le> a n" for n
  proof -
    have "x ^ (Suc n * 2 + 1) \<le> x ^ (n * 2 + 1)"
      using assms by (intro power_decreasing) auto
    moreover have "1 / real (Suc n * 2 + 1) \<le> 1 / real (n * 2 + 1)"
      by (simp add: field_simps)
    moreover have "0 \<le> x ^ (Suc n * 2 + 1)" using assms by simp
    ultimately show ?thesis
      unfolding a_def by (intro mult_mono) auto
  qed
  have s: "arctan x = (\<Sum>k. (- 1) ^ k * a k)"
    unfolding a_def using assms by (intro arctan_series) auto
  have lo: "(\<Sum>i<2 * 1. (- 1) ^ i * a i) \<le> arctan x"
    unfolding s by (rule summable_Leibniz'(2) [OF z nn dec])
  have hi: "arctan x \<le> (\<Sum>i<2 * 1 + 1. (- 1) ^ i * a i)"
    unfolding s by (rule summable_Leibniz'(4) [OF z nn dec])
  show "x - x ^ 3 / 3 \<le> arctan x"
    using lo by (simp add: a_def eval_nat_numeral)
  show "arctan x \<le> x - x ^ 3 / 3 + x ^ 5 / 5"
    using hi by (simp add: a_def eval_nat_numeral)
qed

lemma pi_bounds: "3.14 < pi" "pi < 3.142"
proof -
  have m: "pi = 16 * arctan (1 / 5) - 4 * arctan (1 / 239)"
    using machin by simp
  have a1: "(1/5::real) - (1/5) ^ 3 / 3 \<le> arctan (1 / 5)"
    and a2: "arctan (1 / 5) \<le> (1/5::real) - (1/5) ^ 3 / 3 + (1/5) ^ 5 / 5"
    using arctan_enclosure [of "1/5"] by simp_all
  have b1: "(1/239::real) - (1/239) ^ 3 / 3 \<le> arctan (1 / 239)"
    and b2: "arctan (1 / 239) \<le> (1/239::real) - (1/239) ^ 3 / 3 + (1/239) ^ 5 / 5"
    using arctan_enclosure [of "1/239"] by simp_all
  show "3.14 < pi"
    unfolding m using a1 b2 by (simp add: eval_nat_numeral)
  show "pi < 3.142"
    unfolding m using a2 b1 by (simp add: eval_nat_numeral)
qed

lemma ceiling_pi_mult:
  fixes c :: real
  assumes "0 < c" "real_of_int n - 1 \<le> c * 3.14" "c * 3.142 \<le> real_of_int n"
  shows "\<lceil>c * pi\<rceil> = n"
proof (rule ceiling_unique)
  have "c * 3.14 < c * pi"
    using assms(1) pi_bounds(1) by (intro mult_strict_left_mono) auto
  then show "real_of_int n - 1 < c * pi" using assms(2) by linarith
  have "c * pi < c * 3.142"
    using assms(1) pi_bounds(2) by (intro mult_strict_left_mono) auto
  then show "c * pi \<le> real_of_int n" using assms(3) by linarith
qed

section \<open>The tuning procedure\<close>

lemma fst_tune_driver: "fst (tune_driver st) = fst st"
  by (simp add: tune_driver_def smooth_acceleration_def adjust_pwm_freq_def
      set_stealthchop_mode_def set_driver_field_def Let_def)

lemma lower_auto: "lower TUNING_GOAL = ''auto''"
  by (simp add: lower_def lower_char_def TUNING_GOAL_def)

lemma tune_driver_SILENT:
  "tuning_goal self = SILENT \<Longrightarrow>
   tune_driver (self, snk) =
     (self, snk @ [(''en_pwm_mode'', BoolV True), (''en_spreadcycle'', BoolV False),
                   (''pwm_freq'', FloatV (max 15000 (min (pwm_freq_target self) 20000))),
                   (''semax'', IntV 3), (''semin'', IntV 1), (''seup'', IntV 4), (''sedn'', IntV 2)])"
  by (simp add: tune_driver_def smooth_acceleration_def adjust_pwm_freq_def
      set_stealthchop_mode_def set_driver_field_def Let_def)

lemma tune_driver_PERFORMANCE:
  "tuning_goal self = PERFORMANCE \<Longrightarrow>
   tune_driver (self, snk) =
     (self, snk @ [(''en_pwm_mode'', BoolV False), (''en_spreadcycle'', BoolV True),
                   (''pwm_freq'', FloatV (pwm_freq_target self)),
                   (''semax'', IntV 3), (''semin'', IntV 1), (''seup'', IntV 4), (''sedn'', IntV 2)])"
  by (simp add: tune_driver_def smooth_acceleration_def adjust_pwm_freq_def
      set_stealthchop_mode_def set_driver_field_def Let_def)

lemma tune_driver_other:
  "tuning_goal self \<noteq> SILENT \<Longrightarrow> tuning_goal self \<noteq> PERFORMANCE \<Longrightarrow>
   tune_driver (self, snk) = (self, snk)"
  by (simp add: tune_driver_def)

lemma tune_driver_appends:
  "tune_driver (self, snk) = (self, snk @ snd (tune_driver (self, [])))"
  by (cases "tuning_goal self")
     (simp_all add: tune_driver_SILENT tune_driver_PERFORMANCE tune_driver_other)

section \<open>Runtime overrides\<close>

text \<open>
  C1. Claimed: an \<open>EXTRA_HYSTERESIS\<close> outside 0..8 leaves the stored
  \<open>extra_hysteresis\<close> at its previous value, and an unrecognized \<open>TUNING_GOAL\<close>
  leaves the stored goal unchanged. The range test of the source is a disjunction that
  every integer satisfies: on an object that holds 3, the command with
  \<open>EXTRA_HYSTERESIS=9\<close> stores 9 and the command with \<open>EXTRA_HYSTERESIS=-1\<close>
  stores -1.
\<close>

theorem cmd_stores_out_of_range_hysteresis:
  "extra_hysteresis (example_self\<lparr>tuning_goal := SILENT\<rparr>) = 3 \<and>
   extra_hysteresis (fst (cmd_AUTOTUNE_TMC \<lparr>TUNING_GOAL_param = Some ''silent'', EXTRA_HYSTERESIS_param = Some 9\<rparr>
                      (example_self\<lparr>tuning_goal := SILENT\<rparr>, []))) = 9 \<and>
   extra_hysteresis (fst (cmd_AUTOTUNE_TMC \<lparr>TUNING_GOAL_param = Some ''silent'', EXTRA_HYSTERESIS_param = Some (- 1)\<rparr>
                      (example_self\<lparr>tuning_goal := SILENT\<rparr>, []))) = - 1"
  by (simp add: cmd_AUTOTUNE_TMC_def fst_tune_driver example_self_def Let_def
      split: option.split)

text \<open>The override is stored whatever its value.\<close>

lemma cmd_always_stores_hysteresis:
  "EXTRA_HYSTERESIS_param g = Some e \<Longrightarrow>
   extra_hysteresis (fst (cmd_AUTOTUNE_TMC g st)) = e"
  by (auto simp add: cmd_AUTOTUNE_TMC_def fst_tune_driver Let_def split: option.split)

text \<open>
  The other half of the sentence: a goal string that is no member of the enumeration
  leaves a stored goal other than \<open>AUTO\<close> as it is.
\<close>

lemma cmd_unrecognized_goal_kept:
  "TUNING_GOAL_param g = Some s \<Longrightarrow> TuningGoal_of (lower s) = None \<Longrightarrow>
   tuning_goal (fst st) \<noteq> AUTO \<Longrightarrow>
   tuning_goal (fst (cmd_AUTOTUNE_TMC g st)) = tuning_goal (fst st)"
  by (auto simp add: cmd_AUTOTUNE_TMC_def fst_tune_driver Let_def split: option.split)

text \<open>
  C10. A command without \<open>TUNING_GOAL\<close> does not keep the stored goal: the missing
  parameter reads as \<open>'auto'\<close>, and the goal becomes the cached resolution of
  \<open>AUTO\<close>, \<open>SILENT\<close> if \<open>auto_silent\<close> is set and \<open>PERFORMANCE\<close> otherwise,
  whatever goal was stored before.
\<close>

theorem cmd_without_goal_resets:
  assumes "TUNING_GOAL_param g = None"
  shows "tuning_goal (fst (cmd_AUTOTUNE_TMC g (self, snk))) =
           (if auto_silent self then SILENT else PERFORMANCE)"
  using assms by (simp add: cmd_AUTOTUNE_TMC_def fst_tune_driver lower_auto TuningGoal_of_def Let_def
      split: option.split)

text \<open>
  At the example object with stored goal \<open>SILENT\<close> and \<open>auto_silent\<close> unset, the
  command without parameters leaves \<open>PERFORMANCE\<close>.
\<close>

theorem cmd_without_goal_resets_witness:
  "TUNING_GOAL_param \<lparr>TUNING_GOAL_param = None, EXTRA_HYSTERESIS_param = None\<rparr> = None \<and>
   tuning_goal (example_self\<lparr>tuning_goal := SILENT\<rparr>) = SILENT \<and>
   tuning_goal (fst (cmd_AUTOTUNE_TMC \<lparr>TUNING_GOAL_param = None, EXTRA_HYSTERESIS_param = None\<rparr>
                      (example_self\<lparr>tuning_goal := SILENT\<rparr>, []))) = PERFORMANCE"
  using cmd_without_goal_resets
    [of "\<lparr>TUNING_GOAL_param = None, EXTRA_HYSTERESIS_param = None\<rparr>"
        "example_self\<lparr>tuning_goal := SILENT\<rparr>" "[]"]
  by (simp add: example_self_def)

section \<open>Goal resolution at connect time\<close>

text \<open>
  C5. When both lookups succeed, \<open>handle_connect\<close> returns, and a requested
  \<open>AUTO\<close> becomes \<open>SILENT\<close> exactly when the axis name is outside
  \<open>AUTO_PERFORMANCE_MOTORS\<close> and the motor's torque exceeds 0.3; in every other case it
  becomes \<open>PERFORMANCE\<close>. A requested \<open>SILENT\<close> or \<open>PERFORMANCE\<close> is kept.
\<close>

theorem handle_connect_resolves_goal:
  assumes "p (driver_name self) = Some d"
    and "p (motor_name self) = Some (MotorObject motor)"
  shows "\<exists>self'. handle_connect p self = Inr self' \<and>
           (tuning_goal self = AUTO \<longrightarrow>
              (tuning_goal self' = SILENT \<longleftrightarrow>
                 name self \<notin> AUTO_PERFORMANCE_MOTORS \<and> T motor > 0.3) \<and>
              (tuning_goal self' = PERFORMANCE \<longleftrightarrow>
                 \<not> (name self \<notin> AUTO_PERFORMANCE_MOTORS \<and> T motor > 0.3))) \<and>
           (tuning_goal self = SILENT \<longrightarrow> tuning_goal self' = SILENT) \<and>
           (tuning_goal self = PERFORMANCE \<longrightarrow> tuning_goal self' = PERFORMANCE)"
  using assms by (simp add: handle_connect_def lookup_object_def attr_T_def)

text \<open>The axis \<open>stepper_z\<close> with a torque of 0.5 resolves to \<open>SILENT\<close>.\<close>

theorem handle_connect_resolves_goal_witness:
  "example_printer (driver_name example_self) = Some DriverObject \<and>
   example_printer (motor_name example_self) = Some (MotorObject example_motor) \<and>
   tuning_goal example_self = AUTO \<and>
   name example_self \<notin> AUTO_PERFORMANCE_MOTORS \<and> T example_motor > 0.3 \<and>
   (\<exists>self'. handle_connect example_printer example_self = Inr self' \<and>
      tuning_goal self' = SILENT)"
proof -
  have d: "example_printer (driver_name example_self) = Some DriverObject"
    by (simp add: example_printer_def example_self_def)
  have m: "example_printer (motor_name example_self) = Some (MotorObject example_motor)"
    by (simp add: example_printer_def example_self_def)
  have g: "tuning_goal example_self = AUTO"
    by (simp add: example_self_def)
  have c: "name example_self \<notin> AUTO_PERFORMANCE_MOTORS \<and> T example_motor > 0.3"
    by (simp add: example_self_def example_motor_def AUTO_PERFORMANCE_MOTORS_def)
  from handle_connect_resolves_goal [OF d m] g c
  have "\<exists>self'. handle_connect example_printer example_self = Inr self' \<and>
      tuning_goal self' = SILENT"
    by auto
  with d m g c show ?thesis by simp
qed

section \<open>What the tuning procedure applies\<close>

text \<open>
  C4. Claimed: with the stored goal \<open>AUTOSWITCH\<close> the tuning procedure performs the
  chopper-mode selection of the terminal goals rather than applying no fields. The
  procedure has a branch for \<open>SILENT\<close> and one for \<open>PERFORMANCE\<close> and none for any
  other goal: for the example object with the goal \<open>AUTOSWITCH\<close> it applies no field
  at all, while \<open>set_stealthchop_mode\<close>, had it been called with that goal, applies
  \<open>en_pwm_mode\<close> and \<open>en_spreadcycle\<close>, as it does in a run with the goal
  \<open>PERFORMANCE\<close>.
\<close>

theorem tune_driver_autoswitch_applies_no_field:
  "tuning_goal (example_self\<lparr>tuning_goal := AUTOSWITCH\<rparr>) = AUTOSWITCH \<and>
   tune_driver (example_self\<lparr>tuning_goal := AUTOSWITCH\<rparr>, [])
     = (example_self\<lparr>tuning_goal := AUTOSWITCH\<rparr>, []) \<and>
   snd (set_stealthchop_mode AUTOSWITCH (example_self\<lparr>tuning_goal := AUTOSWITCH\<rparr>, []))
     = [(''en_pwm_mode'', BoolV False), (''en_spreadcycle'', BoolV True)] \<and>
   take 2 (snd (tune_driver (example_self\<lparr>tuning_goal := PERFORMANCE\<rparr>, [])))
     = [(''en_pwm_mode'', BoolV False), (''en_spreadcycle'', BoolV True)] \<and>
   take 2 (snd (tune_driver (example_self\<lparr>tuning_goal := SILENT\<rparr>, [])))
     = [(''en_pwm_mode'', BoolV True), (''en_spreadcycle'', BoolV False)]"
  by (simp add: tune_driver_SILENT tune_driver_PERFORMANCE tune_driver_other
      set_stealthchop_mode_def set_driver_field_def example_self_def)

text \<open>
  C6. A run of the tuning procedure leaves the object unchanged and appends to the sink
  a sequence of pairs that depends on the object only; two runs in succession append that
  same sequence twice.
\<close>

theorem tune_driver_idempotent:
  "tune_driver (self, snk) = (self, snk @ snd (tune_driver (self, []))) \<and>
   tune_driver (tune_driver (self, snk))
     = (self, (snk @ snd (tune_driver (self, []))) @ snd (tune_driver (self, [])))"
proof -
  have a: "tune_driver (self, snk) = (self, snk @ snd (tune_driver (self, [])))"
    by (rule tune_driver_appends)
  have "tune_driver (tune_driver (self, snk))
          = tune_driver (self, snk @ snd (tune_driver (self, [])))"
    using a by simp
  also have "\<dots> = (self, (snk @ snd (tune_driver (self, []))) @ snd (tune_driver (self, [])))"
    by (rule tune_driver_appends)
  finally show ?thesis using a by simp
qed

text \<open>
  C8. Under \<open>SILENT\<close> the procedure applies \<open>pwm_freq\<close> once, with the value
  \<open>max(15e3, min(pwm_freq_target, 20e3))\<close>; under \<open>PERFORMANCE\<close> it applies
  \<open>pwm_freq_target\<close> itself.
\<close>

theorem tune_driver_pwm_freq:
  "(tuning_goal self = SILENT \<longrightarrow>
      applied_values ''pwm_freq'' (snd (tune_driver (self, [])))
        = [FloatV (max 15000 (min (pwm_freq_target self) 20000))]) \<and>
   (tuning_goal self = PERFORMANCE \<longrightarrow>
      applied_values ''pwm_freq'' (snd (tune_driver (self, [])))
        = [FloatV (pwm_freq_target self)])"
  by (simp add: tune_driver_SILENT tune_driver_PERFORMANCE applied_values_def)

text \<open>
  Under \<open>SILENT\<close>, 55 kHz gives 20 kHz, 10 kHz gives 15 kHz and 18 kHz stays; under
  \<open>PERFORMANCE\<close> 55 kHz stays.
\<close>

theorem tune_driver_pwm_freq_witness:
  "tuning_goal (example_self\<lparr>tuning_goal := SILENT, pwm_freq_target := 55000\<rparr>) = SILENT \<and>
   applied_values ''pwm_freq''
     (snd (tune_driver (example_self\<lparr>tuning_goal := SILENT, pwm_freq_target := 55000\<rparr>, [])))
       = [FloatV 20000] \<and>
   applied_values ''pwm_freq''
     (snd (tune_driver (example_self\<lparr>tuning_goal := SILENT, pwm_freq_target := 10000\<rparr>, [])))
       = [FloatV 15000] \<and>
   applied_values ''pwm_freq''
     (snd (tune_driver (example_self\<lparr>tuning_goal := SILENT, pwm_freq_target := 18000\<rparr>, [])))
       = [FloatV 18000] \<and>
   tuning_goal (example_self\<lparr>tuning_goal := PERFORMANCE, pwm_freq_target := 55000\<rparr>) = PERFORMANCE \<and>
   applied_values ''pwm_freq''
     (snd (tune_driver (example_self\<lparr>tuning_goal := PERFORMANCE, pwm_freq_target := 55000\<rparr>, [])))
       = [FloatV 55000]"
  using tune_driver_pwm_freq [of "example_self\<lparr>tuning_goal := SILENT, pwm_freq_target := 55000\<rparr>"]
    tune_driver_pwm_freq [of "example_self\<lparr>tuning_goal := SILENT, pwm_freq_target := 10000\<rparr>"]
    tune_driver_pwm_freq [of "example_self\<lparr>tuning_goal := SILENT, pwm_freq_target := 18000\<rparr>"]
    tune_driver_pwm_freq [of "example_self\<lparr>tuning_goal := PERFORMANCE, pwm_freq_target := 55000\<rparr>"]
  by simp

section \<open>Construction of the motor model\<close>

text \<open>
  C2. Claimed: a rated current of zero or less fails with a configuration error before
  \<open>cbemf\<close> is computed. The accessor is called with \<open>minval=0\<close>, which accepts
  zero: for the section with \<open>max_current = 0\<close> the division runs and the constructor
  ends in \<open>ZeroDivisionError\<close>.
\<close>

theorem init_zero_current_divides_by_zero:
  "MotorConstants_init zero_current_config = Inl ZeroDivisionError"
  by (simp add: MotorConstants_init_def zero_current_config_def getfloat_def getint_def)

text \<open>A negative rated current is rejected by the accessor; a positive one is accepted.\<close>

lemma init_negative_current_rejected:
  "MotorConstants_init (zero_current_config(''max_current'' \<mapsto> FloatText (- 1)))
     = Inl (ConfigError ''Option max_current is below its minimum'')"
  by (simp add: MotorConstants_init_def zero_current_config_def getfloat_def getint_def)

lemma init_positive_current:
  "MotorConstants_init (zero_current_config(''max_current'' \<mapsto> FloatText 1.5))
     = Inr example_motor"
  by (simp add: MotorConstants_init_def zero_current_config_def getfloat_def getint_def
      example_motor_def)

section \<open>The PWM gradient\<close>

lemma pwmgrad_pi_factor:
  assumes "steps \<noteq> 0" "volts \<noteq> 0"
  shows "pwmgrad self fclk steps volts
           = Inr \<lceil>(cbemf self * 2 * fclk * 1.46 / (volts * 256 * real_of_int steps)) * pi\<rceil>"
proof -
  have "cbemf self * 2 * pi * fclk * 1.46 / (volts * 256 * real_of_int steps)
          = (cbemf self * 2 * fclk * 1.46 / (volts * 256 * real_of_int steps)) * pi"
    by (simp add: mult_ac)
  moreover have "pwmgrad self fclk steps volts
      = Inr \<lceil>cbemf self * 2 * pi * fclk * 1.46 / (volts * 256 * real_of_int steps)\<rceil>"
    using assms by (simp add: pwmgrad_def Let_def)
  ultimately show ?thesis
    by (simp only:)
qed

lemma pwmgrad_example_24: "pwmgrad example_motor 12500000 200 24 = Inr 16"
proof -
  have c: "cbemf example_motor * 2 * 12500000 * 1.46 / (24 * 256 * real_of_int 200)
             = 45625 / 9216"
    by (simp add: example_motor_def)
  have k: "\<lceil>(45625 / 9216) * pi\<rceil> = (16::int)"
    by (rule ceiling_pi_mult) simp_all
  have "pwmgrad example_motor 12500000 200 24
          = Inr \<lceil>(cbemf example_motor * 2 * 12500000 * 1.46 / (24 * 256 * real_of_int 200)) * pi\<rceil>"
    by (rule pwmgrad_pi_factor) simp_all
  also have "\<dots> = Inr \<lceil>(45625 / 9216) * pi\<rceil>"
    by (simp only: c)
  also have "\<dots> = Inr 16"
    by (simp only: k)
  finally show ?thesis .
qed

lemma pwmgrad_example_12: "pwmgrad example_motor 12500000 200 12 = Inr 32"
proof -
  have c: "cbemf example_motor * 2 * 12500000 * 1.46 / (12 * 256 * real_of_int 200)
             = 45625 / 4608"
    by (simp add: example_motor_def)
  have k: "\<lceil>(45625 / 4608) * pi\<rceil> = (32::int)"
    by (rule ceiling_pi_mult) simp_all
  have "pwmgrad example_motor 12500000 200 12
          = Inr \<lceil>(cbemf example_motor * 2 * 12500000 * 1.46 / (12 * 256 * real_of_int 200)) * pi\<rceil>"
    by (rule pwmgrad_pi_factor) simp_all
  also have "\<dots> = Inr \<lceil>(45625 / 4608) * pi\<rceil>"
    by (simp only: c)
  also have "\<dots> = Inr 32"
    by (simp only: k)
  finally show ?thesis .
qed

lemma pwmgrad_is_spec_formula:
  assumes "volts > 0" and "0 < (if steps = 0 then S self else steps)"
  shows "pwmgrad self fclk steps volts
           = Inr (pwmGradient_spec 1.46 (cbemf self) (S self) fclk steps volts)"
  using assms by (simp add: pwmgrad_def pwmGradient_spec_def Let_def mult_ac)

lemma pwmGradient_spec_engine_constant_example:
  "pwmGradient_spec 1.3 (cbemf example_motor) (S example_motor) 12500000 200 24 = 14"
proof -
  have c: "cbemf example_motor * (2 * pi) * 12500000 * 1.3
             / (24 * 256 * real_of_int (if (200::int) = 0 then S example_motor else 200))
           = (40625 / 9216) * pi"
    by (simp add: example_motor_def)
  have k: "\<lceil>(40625 / 9216) * pi\<rceil> = (14::int)"
    by (rule ceiling_pi_mult) simp_all
  show ?thesis
    unfolding pwmGradient_spec_def by (simp only: c k)
qed

lemma AutotuneTMC_pwmgrad_always_raises:
  "AutotuneTMC_pwmgrad self fclk steps volts = Inl AttributeError"
  by (simp add: AutotuneTMC_pwmgrad_def AutotuneTMC_attr_S_def AutotuneTMC_attr_cbemf_def)

lemma pwmofs_example_12: "pwmofs example_motor 12 0 = Inr 75"
  by (simp add: pwmofs_def example_motor_def Let_def)

text \<open>
  C3. Claimed: \<open>maxpwmrps(fclk, steps, volts, current)\<close> is
  \<open>(255 - pwmofs(volts, current)) / (pi * pwmgrad(fclk, steps, volts))\<close>. The source
  calls \<open>pwmgrad\<close> without \<open>volts\<close>. For the example motor at 12.5 MHz, 200 steps,
  12 V and no current given, the offset is 75 and the gradient at 12 V is 32, but the
  result is \<open>180 / (16 pi)\<close>, with the gradient 16 of the default 24 V.
\<close>

theorem maxpwmrps_ignores_volts_in_gradient:
  "maxpwmrps example_motor 12500000 200 12 0 = Inr (180 / (pi * 16)) \<and>
   pwmofs example_motor 12 0 = Inr 75 \<and>
   pwmgrad example_motor 12500000 200 12 = Inr 32 \<and>
   180 / (pi * 16) \<noteq> real_of_int (255 - 75) / (pi * real_of_int 32)"
proof -
  have "maxpwmrps example_motor 12500000 200 12 0 = Inr (180 / (pi * 16))"
    by (simp add: maxpwmrps_def pwmofs_example_12 volts_default_def pwmgrad_example_24)
  moreover have "180 / (pi * 16) \<noteq> real_of_int (255 - 75) / (pi * real_of_int 32)"
    by simp
  ultimately show ?thesis
    using pwmofs_example_12 pwmgrad_example_12 by simp
qed

text \<open>
  C9. Claimed: the engine's \<open>pwmgrad\<close> and the motor model's \<open>pwmgrad\<close> compute
  the same formula with the constants 1.3 and 1.46, so that on some valid input the two
  sites return different values. The engine's method reads \<open>self.cbemf\<close> and
  \<open>self.S\<close>, which an engine object does not have. For the example object, connected
  to the example motor, at 12.5 MHz and 24 V, the engine's method raises
  \<open>AttributeError\<close> with 200 steps and with the default of \<open>steps\<close>, where the
  formula with the constant 1.3 gives 14 and the motor model's method returns 16.
\<close>

theorem engine_pwmgrad_raises_AttributeError:
  "AutotuneTMC_pwmgrad (example_self\<lparr>motor_object := Some (MotorObject example_motor)\<rparr>)
     12500000 200 24 = Inl AttributeError \<and>
   AutotuneTMC_pwmgrad (example_self\<lparr>motor_object := Some (MotorObject example_motor)\<rparr>)
     12500000 0 24 = Inl AttributeError \<and>
   pwmGradient_spec 1.3 (cbemf example_motor) (S example_motor) 12500000 200 24 = 14 \<and>
   pwmgrad example_motor 12500000 200 24 = Inr 16"
  by (simp add: AutotuneTMC_pwmgrad_always_raises pwmGradient_spec_engine_constant_example
      pwmgrad_example_24)

section \<open>Hysteresis\<close>

lemma hysteresis_locals_shape:
  assumes "fclk \<noteq> 0" "L self \<noteq> 0" "(if current > 0 then current else I self * 0.8) \<noteq> 0"
  shows "\<exists>b. \<forall>extra. hysteresis_locals self extra fclk volts current tbl toff
           = Inr (extra + b, min (extra + b) 14, max (min (min (extra + b) 14) 8) 1,
                  min (min (extra + b) 14 - max (min (min (extra + b) 14) 8) 1) 12)"
  using assms unfolding hysteresis_locals_def Let_def
  by (intro exI allI) (simp only: if_False refl)

lemma clamp_chain_bounds:
  fixes raw :: int
  defines "htotal \<equiv> min raw 14"
  defines "hstrt \<equiv> max (min htotal 8) 1"
  defines "hend \<equiv> min (htotal - hstrt) 12"
  shows "0 \<le> hstrt - 1" "hstrt - 1 \<le> 7" "hend + 3 \<le> 9" "htotal \<le> 14"
  unfolding hend_def hstrt_def htotal_def by linarith+

lemma effective_current_pos:
  fixes current :: real
  assumes "I self > 0" "current \<ge> 0"
  shows "(if current > 0 then current else I self * 0.8) \<noteq> 0"
  using assms by auto

text \<open>
  Two runs on the example motor at 12.5 MHz and 24 V with \<open>tbl = 1\<close>: the four
  logged integers for \<open>toff = 3\<close>, and for \<open>toff = 15\<close>, where the cap applies.
\<close>

lemma hysteresis_locals_example:
  "hysteresis_locals example_motor 2 12500000 24 0 1 3 = Inr (7, 7, 7, 0)"
  by (simp add: hysteresis_locals_def example_motor_def Let_def)

lemma hysteresis_locals_example_saturated:
  "hysteresis_locals example_motor 2 12500000 24 0 1 15 = Inr (27, 14, 8, 6)"
  by (simp add: hysteresis_locals_def example_motor_def Let_def)

text \<open>
  C7. For a motor with positive resistance, inductance and rated current, \<open>extra\<close> in
  0..8, \<open>tbl\<close> in 0..3, \<open>toff\<close> in 0..15, positive \<open>fclk\<close> and \<open>volts\<close>
  and a current that is not negative, \<open>hysteresis\<close> returns a pair whose first
  component is in 0..7 and whose second is at most 11; \<open>htotal\<close> is the raw value
  capped at 14; and with the other inputs fixed, a larger \<open>extra\<close> gives a raw value
  larger by the same amount, with \<open>htotal\<close> not decreasing and never above 14.
\<close>

theorem hysteresis_bounds_and_monotone:
  assumes "R self > 0" "L self > 0" "I self > 0"
    and "0 \<le> extra" "extra \<le> 8" "0 \<le> tbl" "tbl \<le> 3" "0 \<le> toff" "toff \<le> 15"
    and "fclk > 0" "volts > 0" "current \<ge> 0"
  shows "\<exists>raw htotal hstrt hend.
           hysteresis_locals self extra fclk volts current tbl toff
             = Inr (raw, htotal, hstrt, hend) \<and>
           hysteresis self extra fclk volts current tbl toff = Inr (hstrt - 1, hend + 3) \<and>
           0 \<le> hstrt - 1 \<and> hstrt - 1 \<le> 7 \<and> hend + 3 \<le> 11 \<and>
           htotal = min raw 14 \<and>
           (\<forall>extra2. extra \<le> extra2 \<and> extra2 \<le> 8 \<longrightarrow>
              (\<exists>raw2 htotal2 hstrt2 hend2.
                 hysteresis_locals self extra2 fclk volts current tbl toff
                   = Inr (raw2, htotal2, hstrt2, hend2) \<and>
                 raw2 - raw = extra2 - extra \<and> (extra < extra2 \<longrightarrow> raw < raw2) \<and>
                 htotal2 = min raw2 14 \<and> htotal \<le> htotal2 \<and> htotal2 \<le> 14))"
proof -
  have nz: "fclk \<noteq> 0" "L self \<noteq> 0" "(if current > 0 then current else I self * 0.8) \<noteq> 0"
    using assms(2,10) effective_current_pos [OF assms(3,12)] by auto
  from hysteresis_locals_shape [OF nz, of volts tbl toff]
  obtain b where loc: "\<And>e. hysteresis_locals self e fclk volts current tbl toff
           = Inr (e + b, min (e + b) 14, max (min (min (e + b) 14) 8) 1,
                  min (min (e + b) 14 - max (min (min (e + b) 14) 8) 1) 12)"
    by blast
  define raw where "raw = extra + b"
  define htotal where "htotal = min raw 14"
  define hstrt where "hstrt = max (min htotal 8) 1"
  define hend where "hend = min (htotal - hstrt) 12"
  have l: "hysteresis_locals self extra fclk volts current tbl toff
             = Inr (raw, htotal, hstrt, hend)"
    unfolding hend_def hstrt_def htotal_def raw_def by (rule loc)
  have h: "hysteresis self extra fclk volts current tbl toff = Inr (hstrt - 1, hend + 3)"
    by (simp add: hysteresis_def l)
  have bnd: "0 \<le> hstrt - 1" "hstrt - 1 \<le> 7" "hend + 3 \<le> 11"
    using clamp_chain_bounds [of raw] unfolding hend_def hstrt_def htotal_def by linarith+
  have mono: "\<exists>raw2 htotal2 hstrt2 hend2.
                 hysteresis_locals self extra2 fclk volts current tbl toff
                   = Inr (raw2, htotal2, hstrt2, hend2) \<and>
                 raw2 - raw = extra2 - extra \<and> (extra < extra2 \<longrightarrow> raw < raw2) \<and>
                 htotal2 = min raw2 14 \<and> htotal \<le> htotal2 \<and> htotal2 \<le> 14"
    if "extra \<le> extra2" for extra2
  proof (intro exI conjI)
    show "hysteresis_locals self extra2 fclk volts current tbl toff
           = Inr (extra2 + b, min (extra2 + b) 14, max (min (min (extra2 + b) 14) 8) 1,
                  min (min (extra2 + b) 14 - max (min (min (extra2 + b) 14) 8) 1) 12)"
      by (rule loc)
    show "extra2 + b - raw = extra2 - extra" by (simp add: raw_def)
    show "extra < extra2 \<longrightarrow> raw < extra2 + b" by (simp add: raw_def)
    show "min (extra2 + b) 14 = min (extra2 + b) 14" by (rule refl)
    show "htotal \<le> min (extra2 + b) 14" using that by (simp add: htotal_def raw_def)
    show "min (extra2 + b) 14 \<le> 14" by simp
  qed
  show ?thesis
    using l h bnd mono htotal_def by blast
qed

text \<open>
  The example motor at 12.5 MHz, 24 V, \<open>tbl = 1\<close>, \<open>toff = 3\<close>: \<open>extra = 2\<close>
  gives the pair (6, 3), and \<open>extra = 8\<close> the raw value 13.
\<close>

theorem hysteresis_bounds_and_monotone_witness:
  "R example_motor > 0 \<and> L example_motor > 0 \<and> I example_motor > 0 \<and>
   (0::int) \<le> 2 \<and> (2::int) \<le> 8 \<and> (0::int) \<le> 1 \<and> (1::int) \<le> 3 \<and> (0::int) \<le> 3 \<and> (3::int) \<le> 15 \<and>
   (12500000::real) > 0 \<and> (24::real) > 0 \<and> (0::real) \<ge> 0 \<and>
   hysteresis example_motor 2 12500000 24 0 1 3 = Inr (6, 3) \<and>
   (\<exists>raw2 htotal2 hstrt2 hend2.
      hysteresis_locals example_motor 8 12500000 24 0 1 3 = Inr (raw2, htotal2, hstrt2, hend2) \<and>
      raw2 = 13 \<and> htotal2 = 13)"
proof -
  have hyp: "R example_motor > 0" "L example_motor > 0" "I example_motor > 0"
    by (simp_all add: example_motor_def)
  from hysteresis_bounds_and_monotone [OF hyp, of 2 1 3 12500000 24 0]
  obtain raw htotal hstrt hend where
    l: "hysteresis_locals example_motor 2 12500000 24 0 1 3 = Inr (raw, htotal, hstrt, hend)"
    and h: "hysteresis example_motor 2 12500000 24 0 1 3 = Inr (hstrt - 1, hend + 3)"
    and m: "\<forall>extra2. 2 \<le> extra2 \<and> extra2 \<le> 8 \<longrightarrow>
              (\<exists>raw2 htotal2 hstrt2 hend2.
                 hysteresis_locals example_motor extra2 12500000 24 0 1 3
                   = Inr (raw2, htotal2, hstrt2, hend2) \<and>
                 raw2 - raw = extra2 - 2 \<and> (2 < extra2 \<longrightarrow> raw < raw2) \<and>
                 htotal2 = min raw2 14 \<and> htotal \<le> htotal2 \<and> htotal2 \<le> 14)"
    by auto
  from l have v: "raw = 7" "hstrt = 7" "hend = 0"
    by (simp_all add: hysteresis_locals_example)
  from m [rule_format, of 8] v
  have "\<exists>raw2 htotal2 hstrt2 hend2.
      hysteresis_locals example_motor 8 12500000 24 0 1 3 = Inr (raw2, htotal2, hstrt2, hend2) \<and>
      raw2 = 13 \<and> htotal2 = 13"
    by auto
  with h v hyp show ?thesis by simp
qed

end
